theory Spec2Isabelle
  imports Complex_Main
begin

section \<open>JavaScript values\<close>

text \<open>
  The request body is parsed JSON and the response body is a JavaScript object that
  \<open>res.json\<close> serialises.  A number is a rational (every finite double is one; JSON
  has no NaN).  An object is an association list in which the first binding of a key is
  the property.  \<open>JUndefined\<close> is the value of a property that is absent.
\<close>

datatype jsval =
    JUndefined
  | JNull
  | JBool bool
  | JNum rat
  | JStr string
  | JArr "jsval list"
  | JObj "(string \<times> jsval) list"

text \<open>ToBoolean: what \<open>!v\<close> and \<open>v || w\<close> test.\<close>

fun truthy :: "jsval \<Rightarrow> bool" where
  "truthy JUndefined = False"
| "truthy JNull = False"
| "truthy (JBool b) = b"
| "truthy (JNum n) = (n \<noteq> 0)"
| "truthy (JStr s) = (s \<noteq> [])"
| "truthy (JArr xs) = True"
| "truthy (JObj kvs) = True"

text \<open>The operator \<open>a || b\<close>.\<close>

definition js_or :: "jsval \<Rightarrow> jsval \<Rightarrow> jsval" where
  "js_or a b = (if truthy a then a else b)"

text \<open>
  Destructuring \<open>const { k, ... } = v\<close>: it throws a TypeError when \<open>v\<close> is
  \<open>undefined\<close> or \<open>null\<close>; otherwise each name reads a property, an absent property
  reads as \<open>undefined\<close>, and a primitive or an array has none of the properties read
  here.
\<close>

fun nullish :: "jsval \<Rightarrow> bool" where
  "nullish JUndefined = True"
| "nullish JNull = True"
| "nullish v = False"

fun get_prop :: "jsval \<Rightarrow> string \<Rightarrow> jsval" where
  "get_prop (JObj kvs) k = (case map_of kvs k of None \<Rightarrow> JUndefined | Some v \<Rightarrow> v)"
| "get_prop v k = JUndefined"

section \<open>The relational store\<close>

text \<open>
  Modelled from the spec: the relational schema and the store behind \<open>sequelize\<close>,
  \<open>Product\<close>, \<open>Inventory\<close> and \<open>db\<close>, none of which the repository defines.  The
  columns are those the handlers read and write; \<open>sku\<close> is unique, an Inventory row is
  unique per (product, warehouse) and references an existing product and warehouse, and
  a product created without a supplier has none.  Whether the store itself refuses a
  negative quantity is not fixed by the source: it is the switch \<open>quantity_check\<close>.
\<close>

record product_row =
  p_id :: nat
  p_name :: string
  p_sku :: string
  p_price :: rat
  p_supplier_id :: "nat option"

record inventory_row =
  i_product_id :: nat
  i_warehouse_id :: nat
  i_quantity :: int

record company_row =
  c_id :: nat
  c_name :: string

record warehouse_row =
  w_id :: nat
  w_name :: string
  w_company_id :: nat

record supplier_row =
  s_id :: nat
  s_name :: string
  s_email :: string

text \<open>An open transaction holds the rows written through it and not yet committed.\<close>

record tx =
  tx_id :: nat
  tx_products :: "product_row list"
  tx_inventory :: "inventory_row list"

text \<open>Every call the handlers make to the store, with its arguments, in order.\<close>

datatype store_call =
    CallTransaction
  | CallProductCreate nat jsval jsval jsval
  | CallInventoryCreate nat nat jsval jsval
  | CallCommit nat
  | CallRollback nat
  | CallQuery nat

record store =
  companies :: "company_row list"
  products :: "product_row list"
  inventory :: "inventory_row list"
  warehouses :: "warehouse_row list"
  suppliers :: "supplier_row list"
  next_product_id :: nat
  next_tx_id :: nat
  open_txs :: "tx list"
  quantity_check :: bool
  calls :: "store_call list"

text \<open>
  Any call to the store may fail for a reason outside the data (connection loss, a
  timeout): \<open>f k = Some e\<close> makes every call of kind \<open>k\<close> throw the error text \<open>e\<close>
  without effect.
\<close>

datatype op_kind = OpTransaction | OpProductCreate | OpInventoryCreate | OpCommit | OpRollback | OpQuery

type_synonym faults = "op_kind \<Rightarrow> string option"

definition no_faults :: faults where
  "no_faults = (\<lambda>k. None)"

definition record_call :: "store_call \<Rightarrow> store \<Rightarrow> store" where
  "record_call c s = s\<lparr>calls := calls s @ [c]\<rparr>"

definition find_tx :: "nat \<Rightarrow> store \<Rightarrow> tx option" where
  "find_tx t s = find (\<lambda>u. tx_id u = t) (open_txs s)"

definition is_integer :: "rat \<Rightarrow> bool" where
  "is_integer q = (of_int \<lfloor>q\<rfloor> = q)"

text \<open>Every warehouse belongs to a company of the store (the foreign key).\<close>

definition warehouses_fk :: "store \<Rightarrow> bool" where
  "warehouses_fk s = (\<forall>w \<in> set (warehouses s). w_company_id w \<in> set (map c_id (companies s)))"


text \<open>The property names of an object, in order.\<close>

fun keys :: "jsval \<Rightarrow> string list" where
  "keys (JObj kvs) = map fst kvs"
| "keys v = []"

section \<open>The low-stock alert endpoint (alertsApi.js)\<close>

text \<open>One row of the SELECT list of the join.\<close>

record item =
  it_id :: nat
  it_name :: string
  it_sku :: string
  it_warehouse_id :: nat
  it_warehouse_name :: string
  it_quantity :: int
  it_supplier_id :: nat
  it_supplier_name :: string
  it_email :: string

text \<open>
  The SQL text: products joined with inventory, warehouses and suppliers (inner joins, so
  a product with no supplier yields no row), restricted to the warehouses of the company.
\<close>

definition select_list :: "product_row \<Rightarrow> inventory_row \<Rightarrow> warehouse_row \<Rightarrow> supplier_row \<Rightarrow> item" where
  "select_list p i w su =
     \<lparr>it_id = p_id p, it_name = p_name p, it_sku = p_sku p,
      it_warehouse_id = w_id w, it_warehouse_name = w_name w,
      it_quantity = i_quantity i,
      it_supplier_id = s_id su, it_supplier_name = s_name su, it_email = s_email su\<rparr>"

definition select_join :: "store \<Rightarrow> nat \<Rightarrow> item list" where
  "select_join s companyId =
     [select_list p i w su.
      p \<leftarrow> products s,
      i \<leftarrow> inventory s, p_id p = i_product_id i,
      w \<leftarrow> warehouses s, i_warehouse_id i = w_id w,
      su \<leftarrow> suppliers s, p_supplier_id p = Some (s_id su),
      w_company_id w = companyId]"

text \<open>
  \<open>db.query(sql, [companyId])\<close>: one read of the store, which returns the rows or
  throws.  The path parameter is bound to the placeholder and compared with the column
  \<open>company_id\<close>, so it is a value of that column's type.
\<close>

definition db_query :: "faults \<Rightarrow> nat \<Rightarrow> store \<Rightarrow> (string + item list) \<times> store" where
  "db_query f companyId s =
     (let s1 = record_call (CallQuery companyId) s in
      case f OpQuery of
        Some e \<Rightarrow> (Inl e, s1)
      | None \<Rightarrow> (Inr (select_join s companyId), s1))"

definition THRESHOLD :: int where
  "THRESHOLD = 20"

text \<open>The object pushed for one row.\<close>

definition alert_of :: "item \<Rightarrow> jsval" where
  "alert_of it =
     JObj [(''product_id'', JNum (of_nat (it_id it))),
           (''product_name'', JStr (it_name it)),
           (''sku'', JStr (it_sku it)),
           (''warehouse_name'', JStr (it_warehouse_name it)),
           (''current_stock'', JNum (of_int (it_quantity it))),
           (''supplier'', JObj [(''name'', JStr (it_supplier_name it)),
                                (''contact_email'', JStr (it_email it))])]"

text \<open>
  The \<open>for (const item of products)\<close> loop.  Its state is the array \<open>alerts\<close>
  together with the number of iterations run so far, which the source does not keep: it
  is the measure of the handler's own work.
\<close>

fun alerts_loop :: "item list \<Rightarrow> jsval list \<times> nat \<Rightarrow> jsval list \<times> nat" where
  "alerts_loop [] st = st"
| "alerts_loop (it # rest) (alerts, n) =
     alerts_loop rest
       (if it_quantity it < THRESHOLD then alerts @ [alert_of it] else alerts, Suc n)"

record response =
  status :: nat
  body :: jsval

text \<open>
  A handler either sends a response or its promise rejects with nothing sent
  (\<open>Unhandled\<close>, the text of the error that escapes).
\<close>

datatype outcome = Responded response | Unhandled string

text \<open>
  What a run of a handler leaves: what was sent, the store, and the lines written with
  \<open>console.error\<close>.  For the alert endpoint also the number of iterations of its loop.
\<close>

record result =
  sent :: outcome
  final :: store
  console :: "string list"

record alerts_result = result +
  iterations :: nat

definition low_stock_handler :: "faults \<Rightarrow> nat \<Rightarrow> store \<Rightarrow> alerts_result" where
  "low_stock_handler f companyId s =
     (case db_query f companyId s of
        (Inl e, s1) \<Rightarrow>
          \<lparr>sent = Responded \<lparr>status = 500, body = JObj [(''error'', JStr ''Server Error'')]\<rparr>,
           final = s1, console = [e], iterations = 0\<rparr>
      | (Inr rows, s1) \<Rightarrow>
          (case alerts_loop rows ([], 0) of
             (alerts, n) \<Rightarrow>
               \<lparr>sent = Responded
                   \<lparr>status = 200,
                    body = JObj [(''alerts'', JArr alerts),
                                 (''total_alerts'', JNum (of_nat (length alerts)))]\<rparr>,
                final = s1, console = [], iterations = n\<rparr>))"

section \<open>The store operations behind the provisioning endpoint\<close>

text \<open>
  Modelled from the spec: \<open>sequelize.transaction()\<close>, which the repository does
  not define.  It opens a transaction with nothing written through it and returns its
  handle.
\<close>

definition transaction :: "faults \<Rightarrow> store \<Rightarrow> (string + nat) \<times> store" where
  "transaction f s =
     (let s1 = record_call CallTransaction s in
      case f OpTransaction of
        Some e \<Rightarrow> (Inl e, s1)
      | None \<Rightarrow>
          (Inr (next_tx_id s),
           s1\<lparr>next_tx_id := Suc (next_tx_id s),
              open_txs := \<lparr>tx_id = next_tx_id s, tx_products = [], tx_inventory = []\<rparr>
                          # open_txs s\<rparr>))"

definition add_product :: "nat \<Rightarrow> product_row \<Rightarrow> tx \<Rightarrow> tx" where
  "add_product t row u = (if tx_id u = t then u\<lparr>tx_products := tx_products u @ [row]\<rparr> else u)"

definition add_inventory :: "nat \<Rightarrow> inventory_row \<Rightarrow> tx \<Rightarrow> tx" where
  "add_inventory t row u = (if tx_id u = t then u\<lparr>tx_inventory := tx_inventory u @ [row]\<rparr> else u)"

text \<open>
  Modelled from the spec: \<open>Product.create({name, sku, price}, {transaction: t})\<close>.
  The row is written through
  the transaction, with the next identifier of the sequence (which a rollback does not
  give back), unless the call fails, the transaction is finished, a value does not fit
  its column, or the sku is taken.
\<close>

definition Product_create ::
  "faults \<Rightarrow> nat \<Rightarrow> jsval \<Rightarrow> jsval \<Rightarrow> jsval \<Rightarrow> store \<Rightarrow> (string + product_row) \<times> store" where
  "Product_create f t name sku price s =
     (let s1 = record_call (CallProductCreate t name sku price) s in
      case f OpProductCreate of
        Some e \<Rightarrow> (Inl e, s1)
      | None \<Rightarrow>
          (case find_tx t s of
             None \<Rightarrow> (Inl ''Error: transaction is finished'', s1)
           | Some u \<Rightarrow>
               (case (name, sku, price) of
                  (JStr n, JStr k, JNum p) \<Rightarrow>
                    if k \<in> set (map p_sku (products s @ tx_products u))
                    then (Inl ''UniqueConstraintError: products.sku'', s1)
                    else
                      (let row = \<lparr>p_id = next_product_id s, p_name = n, p_sku = k,
                                   p_price = p, p_supplier_id = None\<rparr>
                       in (Inr row,
                           s1\<lparr>next_product_id := Suc (next_product_id s),
                              open_txs := map (add_product t row) (open_txs s)\<rparr>))
                | _ \<Rightarrow> (Inl ''ValidationError: products'', s1))))"

text \<open>
  Modelled from the spec:
  \<open>Inventory.create({productId, warehouseId, quantity}, {transaction: t})\<close>.  It is refused
  when the warehouse or the product does not exist, when the pair is already stocked,
  when the quantity is not an integer, and, if the store checks it, when it is negative.
\<close>

definition Inventory_create ::
  "faults \<Rightarrow> nat \<Rightarrow> nat \<Rightarrow> jsval \<Rightarrow> jsval \<Rightarrow> store \<Rightarrow> (string + inventory_row) \<times> store" where
  "Inventory_create f t productId warehouseId quantity s =
     (let s1 = record_call (CallInventoryCreate t productId warehouseId quantity) s in
      case f OpInventoryCreate of
        Some e \<Rightarrow> (Inl e, s1)
      | None \<Rightarrow>
          (case find_tx t s of
             None \<Rightarrow> (Inl ''Error: transaction is finished'', s1)
           | Some u \<Rightarrow>
               (case (warehouseId, quantity) of
                  (JNum w, JNum q) \<Rightarrow>
                    if \<not> is_integer w \<or> w < 0 \<or> \<not> is_integer q
                    then (Inl ''ValidationError: inventory'', s1)
                    else if nat \<lfloor>w\<rfloor> \<notin> set (map w_id (warehouses s))
                    then (Inl ''ForeignKeyConstraintError: inventory.warehouse_id'', s1)
                    else if productId \<notin> set (map p_id (products s @ tx_products u))
                    then (Inl ''ForeignKeyConstraintError: inventory.product_id'', s1)
                    else if quantity_check s \<and> q < 0
                    then (Inl ''CheckConstraintError: inventory.quantity'', s1)
                    else if (productId, nat \<lfloor>w\<rfloor>)
                            \<in> set (map (\<lambda>i. (i_product_id i, i_warehouse_id i))
                                     (inventory s @ tx_inventory u))
                    then (Inl ''UniqueConstraintError: inventory'', s1)
                    else
                      (let row = \<lparr>i_product_id = productId, i_warehouse_id = nat \<lfloor>w\<rfloor>,
                                   i_quantity = \<lfloor>q\<rfloor>\<rparr>
                       in (Inr row, s1\<lparr>open_txs := map (add_inventory t row) (open_txs s)\<rparr>))
                | _ \<Rightarrow> (Inl ''ValidationError: inventory'', s1))))"

text \<open>
  Modelled from the spec: \<open>t.commit()\<close>, the one point where rows become part of
  the tables, all the rows of the transaction at once.  A commit that fails commits
  nothing.
\<close>

definition commit :: "faults \<Rightarrow> nat \<Rightarrow> store \<Rightarrow> (string + unit) \<times> store" where
  "commit f t s =
     (let s1 = record_call (CallCommit t) s in
      case f OpCommit of
        Some e \<Rightarrow> (Inl e, s1)
      | None \<Rightarrow>
          (case find_tx t s of
             None \<Rightarrow> (Inl ''Error: transaction is finished'', s1)
           | Some u \<Rightarrow>
               (Inr (),
                s1\<lparr>products := products s @ tx_products u,
                   inventory := inventory s @ tx_inventory u,
                   open_txs := filter (\<lambda>v. tx_id v \<noteq> t) (open_txs s)\<rparr>)))"

text \<open>
  Modelled from the spec: \<open>t.rollback()\<close>.  The rows of the transaction are dropped
  and it is closed.
\<close>

definition rollback :: "faults \<Rightarrow> nat \<Rightarrow> store \<Rightarrow> (string + unit) \<times> store" where
  "rollback f t s =
     (let s1 = record_call (CallRollback t) s in
      case f OpRollback of
        Some e \<Rightarrow> (Inl e, s1)
      | None \<Rightarrow>
          (case find_tx t s of
             None \<Rightarrow> (Inl ''Error: transaction is finished'', s1)
           | Some u \<Rightarrow> (Inr (), s1\<lparr>open_txs := filter (\<lambda>v. tx_id v \<noteq> t) (open_txs s)\<rparr>)))"

section \<open>The provisioning endpoint (POST /api/products)\<close>

definition bad_request :: response where
  "bad_request = \<lparr>status = 400, body = JObj [(''error'', JStr ''Missing required fields'')]\<rparr>"

definition created :: "nat \<Rightarrow> response" where
  "created pid =
     \<lparr>status = 201,
      body = JObj [(''message'', JStr ''Product created successfully''),
                   (''product_id'', JNum (of_nat pid))]\<rparr>"

definition server_error :: response where
  "server_error = \<lparr>status = 500, body = JObj [(''error'', JStr ''Failed to create product'')]\<rparr>"

text \<open>
  The body of the \<open>try\<close> block for the transaction \<open>t\<close>: \<open>Inl e\<close> is the error
  thrown to the \<open>catch\<close>, \<open>Inr r\<close> the response returned.
\<close>

definition create_product_try ::
  "faults \<Rightarrow> nat \<Rightarrow> jsval \<Rightarrow> store \<Rightarrow> (string + response) \<times> store" where
  "create_product_try f t req_body s =
     (if nullish req_body
      then (Inl ''TypeError: Cannot destructure property of req.body'', s)
      else
        (let name = get_prop req_body ''name'';
             sku = get_prop req_body ''sku'';
             price = get_prop req_body ''price'';
             warehouse_id = get_prop req_body ''warehouse_id'';
             initial_quantity = get_prop req_body ''initial_quantity''
         in if \<not> truthy name \<or> \<not> truthy sku \<or> \<not> truthy price \<or> \<not> truthy warehouse_id
            then (Inr bad_request, s)
            else
              (case Product_create f t name sku price s of
                 (Inl e, s1) \<Rightarrow> (Inl e, s1)
               | (Inr newProduct, s1) \<Rightarrow>
                   (case Inventory_create f t (p_id newProduct) warehouse_id
                           (js_or initial_quantity (JNum 0)) s1 of
                      (Inl e, s2) \<Rightarrow> (Inl e, s2)
                    | (Inr newInventory, s2) \<Rightarrow>
                        (case commit f t s2 of
                           (Inl e, s3) \<Rightarrow> (Inl e, s3)
                         | (Inr u, s3) \<Rightarrow> (Inr (created (p_id newProduct)), s3))))))"

text \<open>
  The handler.  The transaction is opened outside the \<open>try\<close>, so a failure to open it
  escapes; in the \<open>catch\<close> the rollback comes first, so a rollback that throws escapes
  too, before anything is logged or sent.
\<close>

definition create_product_handler :: "faults \<Rightarrow> jsval \<Rightarrow> store \<Rightarrow> result" where
  "create_product_handler f req_body s =
     (case transaction f s of
        (Inl e, s0) \<Rightarrow> \<lparr>sent = Unhandled e, final = s0, console = []\<rparr>
      | (Inr t, s0) \<Rightarrow>
          (case create_product_try f t req_body s0 of
             (Inr r, s1) \<Rightarrow> \<lparr>sent = Responded r, final = s1, console = []\<rparr>
           | (Inl e, s1) \<Rightarrow>
               (case rollback f t s1 of
                  (Inl e', s2) \<Rightarrow>
                    \<lparr>sent = Unhandled e', final = s2, console = []\<rparr>
                | (Inr u, s2) \<Rightarrow>
                    \<lparr>sent = Responded server_error, final = s2,
                     console = [''Creation failed: '' @ e]\<rparr>)))"

section \<open>What a run of a handler shows\<close>

text \<open>The HTTP status of what was sent, if anything was.\<close>

fun http_status :: "outcome \<Rightarrow> nat option" where
  "http_status (Responded r) = Some (status r)"
| "http_status (Unhandled e) = None"

text \<open>The calls to the store made between the store \<open>s\<close> and the later store \<open>s'\<close>.\<close>

definition new_calls :: "store \<Rightarrow> store \<Rightarrow> store_call list" where
  "new_calls s s' = drop (length (calls s)) (calls s')"

text \<open>The calls that write rows or make them permanent.\<close>

fun is_write :: "store_call \<Rightarrow> bool" where
  "is_write (CallProductCreate t n k p) = True"
| "is_write (CallInventoryCreate t pid w q) = True"
| "is_write (CallCommit t) = True"
| "is_write c = False"

text \<open>
  The committed tables are the same; and, for \<open>same_data\<close>, so are the open
  transactions with the rows pending in them.  The call log and the two sequences
  (product identifiers, transaction handles) are not part of either.
\<close>

definition same_tables :: "store \<Rightarrow> store \<Rightarrow> bool" where
  "same_tables s s' =
     (companies s' = companies s \<and> products s' = products s \<and> inventory s' = inventory s
      \<and> warehouses s' = warehouses s \<and> suppliers s' = suppliers s)"



text \<open>
  The three calls of the \<open>try\<close> block, in order, for the transaction \<open>t\<close>, the
  identifier \<open>pid\<close> of the new product and the request body \<open>b\<close>.
\<close>

definition try_calls :: "nat \<Rightarrow> nat \<Rightarrow> jsval \<Rightarrow> store_call list" where
  "try_calls t pid b =
     [CallProductCreate t (get_prop b ''name'') (get_prop b ''sku'') (get_prop b ''price''),
      CallInventoryCreate t pid (get_prop b ''warehouse_id'')
        (js_or (get_prop b ''initial_quantity'') (JNum 0)),
      CallCommit t]"

text \<open>The test of step 1 of the handler passes: none of the four fields is falsy.\<close>

definition required_present :: "jsval \<Rightarrow> bool" where
  "required_present b =
     (truthy (get_prop b ''name'') \<and> truthy (get_prop b ''sku'')
      \<and> truthy (get_prop b ''price'') \<and> truthy (get_prop b ''warehouse_id''))"

text \<open>The Inventory rows refer to products below the next identifier of the sequence.\<close>

definition product_ids_fresh :: "store \<Rightarrow> bool" where
  "product_ids_fresh s = (\<forall>i \<in> set (inventory s). i_product_id i < next_product_id s)"

section \<open>Example stores\<close>

text \<open>
  Company 1 stocks the Widget (5 units, low), the Gadget (50 units) and the Bolt (2 units,
  but no supplier) in W1; company 2 stocks the Gadget in W2; company 3 has a warehouse
  and no stock; company 4 holds exactly 20 Widgets; no company has the identifier 7.
\<close>

definition example_store :: store where
  "example_store =
     \<lparr>companies = [\<lparr>c_id = 1, c_name = ''Northwind''\<rparr>, \<lparr>c_id = 2, c_name = ''Southwind''\<rparr>,
                   \<lparr>c_id = 3, c_name = ''Idle''\<rparr>, \<lparr>c_id = 4, c_name = ''Full''\<rparr>],
      products = [\<lparr>p_id = 1, p_name = ''Widget'', p_sku = ''W-1'', p_price = 999 / 100, p_supplier_id = Some 1\<rparr>,
                  \<lparr>p_id = 2, p_name = ''Gadget'', p_sku = ''G-1'', p_price = 5, p_supplier_id = Some 1\<rparr>,
                  \<lparr>p_id = 3, p_name = ''Bolt'', p_sku = ''B-1'', p_price = 1 / 4, p_supplier_id = None\<rparr>],
      inventory = [\<lparr>i_product_id = 1, i_warehouse_id = 1, i_quantity = 5\<rparr>,
                   \<lparr>i_product_id = 2, i_warehouse_id = 1, i_quantity = 50\<rparr>,
                   \<lparr>i_product_id = 2, i_warehouse_id = 2, i_quantity = 3\<rparr>,
                   \<lparr>i_product_id = 3, i_warehouse_id = 1, i_quantity = 2\<rparr>,
                   \<lparr>i_product_id = 1, i_warehouse_id = 4, i_quantity = 20\<rparr>],
      warehouses = [\<lparr>w_id = 1, w_name = ''W1'', w_company_id = 1\<rparr>,
                    \<lparr>w_id = 2, w_name = ''W2'', w_company_id = 2\<rparr>,
                    \<lparr>w_id = 3, w_name = ''W3'', w_company_id = 3\<rparr>,
                    \<lparr>w_id = 4, w_name = ''W4'', w_company_id = 4\<rparr>],
      suppliers = [\<lparr>s_id = 1, s_name = ''Acme'', s_email = ''a@acme.com''\<rparr>],
      next_product_id = 4, next_tx_id = 0, open_txs = [], quantity_check = False, calls = []\<rparr>"

definition widget_alert :: jsval where
  "widget_alert =
     JObj [(''product_id'', JNum 1),
           (''product_name'', JStr ''Widget''),
           (''sku'', JStr ''W-1''),
           (''warehouse_name'', JStr ''W1''),
           (''current_stock'', JNum 5),
           (''supplier'', JObj [(''name'', JStr ''Acme''),
                                (''contact_email'', JStr ''a@acme.com'')])]"

definition empty_alerts :: response where
  "empty_alerts = \<lparr>status = 200, body = JObj [(''alerts'', JArr []), (''total_alerts'', JNum 0)]\<rparr>"

text \<open>A company whose products (identifier and sku given) are all well stocked in W1.\<close>

definition well_stocked :: "(nat \<times> string) list \<Rightarrow> store" where
  "well_stocked xs =
     \<lparr>companies = [\<lparr>c_id = 1, c_name = ''Northwind''\<rparr>],
      products = map (\<lambda>(k, sku). \<lparr>p_id = k, p_name = ''Item'', p_sku = sku, p_price = 2,
                                   p_supplier_id = Some 1\<rparr>) xs,
      inventory = map (\<lambda>(k, sku). \<lparr>i_product_id = k, i_warehouse_id = 1, i_quantity = 50\<rparr>) xs,
      warehouses = [\<lparr>w_id = 1, w_name = ''W1'', w_company_id = 1\<rparr>],
      suppliers = [\<lparr>s_id = 1, s_name = ''Acme'', s_email = ''a@acme.com''\<rparr>],
      next_product_id = Suc (length xs), next_tx_id = 0, open_txs = [], quantity_check = False,
      calls = []\<rparr>"

text \<open>
  Provisioning requests: a sku already taken, a new product, a warehouse that does not
  exist, a negative initial quantity, and a body without a name.
\<close>

definition widget2_request :: jsval where
  "widget2_request =
     JObj [(''name'', JStr ''Widget2''), (''sku'', JStr ''W-1''), (''price'', JNum (999 / 100)),
           (''warehouse_id'', JNum 1)]"

definition sprocket_request :: jsval where
  "sprocket_request =
     JObj [(''name'', JStr ''Sprocket''), (''sku'', JStr ''S-1''), (''price'', JNum 3),
           (''warehouse_id'', JNum 1)]"

definition ghost_warehouse_request :: jsval where
  "ghost_warehouse_request =
     JObj [(''name'', JStr ''Sprocket''), (''sku'', JStr ''S-1''), (''price'', JNum 3),
           (''warehouse_id'', JNum 99)]"

definition negative_request :: jsval where
  "negative_request =
     JObj [(''name'', JStr ''Sprocket''), (''sku'', JStr ''S-1''), (''price'', JNum 3),
           (''warehouse_id'', JNum 1), (''initial_quantity'', JNum (- 5))]"

definition nameless_request :: jsval where
  "nameless_request =
     JObj [(''sku'', JStr ''S-1''), (''price'', JNum 3), (''warehouse_id'', JNum 1)]"

definition sprocket_row :: product_row where
  "sprocket_row = \<lparr>p_id = 4, p_name = ''Sprocket'', p_sku = ''S-1'', p_price = 3, p_supplier_id = None\<rparr>"

text \<open>
  A store that cannot be reached when the transaction is opened, one whose connection
  drops right after it was opened, and one whose connection drops after the product
  insert.
\<close>

definition connection_refused :: faults where
  "connection_refused = (\<lambda>k. if k = OpTransaction then Some ''ECONNREFUSED'' else None)"

definition connection_lost :: faults where
  "connection_lost = (\<lambda>k. if k = OpTransaction then None else Some ''ECONNRESET'')"

definition connection_lost_after_insert :: faults where
  "connection_lost_after_insert =
     (\<lambda>k. if k = OpInventoryCreate \<or> k = OpCommit \<or> k = OpRollback
          then Some ''ECONNRESET'' else None)"

section \<open>The low-stock alert endpoint: properties\<close>

lemma alerts_loop_eq:
  "alerts_loop rows (acc, n) =
     (acc @ map alert_of (filter (\<lambda>it. it_quantity it < THRESHOLD) rows), n + length rows)"
  by (induction rows arbitrary: acc n) simp_all

lemma low_stock_handler_ok:
  assumes "f OpQuery = None"
  shows "low_stock_handler f c s =
     \<lparr>sent = Responded
        \<lparr>status = 200,
         body = JObj [(''alerts'', JArr (map alert_of (filter (\<lambda>it. it_quantity it < THRESHOLD) (select_join s c)))),
                      (''total_alerts'', JNum (of_nat (length (filter (\<lambda>it. it_quantity it < THRESHOLD) (select_join s c)))))]\<rparr>,
      final = record_call (CallQuery c) s, console = [], iterations = length (select_join s c)\<rparr>"
  using assms by (simp add: low_stock_handler_def db_query_def alerts_loop_eq)

lemma set_select_join:
  "set (select_join s c) =
     {select_list p i w su | p i w su.
        p \<in> set (products s) \<and> i \<in> set (inventory s) \<and> w \<in> set (warehouses s) \<and> su \<in> set (suppliers s)
        \<and> p_id p = i_product_id i \<and> i_warehouse_id i = w_id w
        \<and> p_supplier_id p = Some (s_id su) \<and> w_company_id w = c}"
  unfolding select_join_def by (fastforce split: if_splits simp: Bex_def)




lemma example_store_alerts:
  "sent (low_stock_handler no_faults 1 example_store) =
       Responded \<lparr>status = 200,
                  body = JObj [(''alerts'', JArr [widget_alert]), (''total_alerts'', JNum 1)]\<rparr>"
  by (simp add: low_stock_handler_def db_query_def no_faults_def select_join_def
                select_list_def example_store_def THRESHOLD_def alert_of_def widget_alert_def)



text \<open>
  C6.  When the read succeeds, an identifier that matches no company (so that, by the
  foreign key, no warehouse carries it), a company whose warehouses hold no stock, and a
  company none of whose rows is below the threshold all get the response
  \<open>{alerts: [], total_alerts: 0}\<close> with status 200.
\<close>

theorem low_stock_empty:
  assumes "f OpQuery = None"
    and "(warehouses_fk s \<and> c \<notin> set (map c_id (companies s)))
         \<or> (\<forall>i \<in> set (inventory s). \<forall>w \<in> set (warehouses s).
               i_warehouse_id i = w_id w \<longrightarrow> w_company_id w \<noteq> c)
         \<or> (\<forall>it \<in> set (select_join s c). 20 \<le> it_quantity it)"
  shows "sent (low_stock_handler f c s) = Responded empty_alerts"
proof -
  have "\<not> it_quantity it < THRESHOLD" if "it \<in> set (select_join s c)" for it
  proof -
    from that obtain p i w su where
      row: "it = select_list p i w su" "i \<in> set (inventory s)" "w \<in> set (warehouses s)"
        "i_warehouse_id i = w_id w" "w_company_id w = c"
      unfolding set_select_join by blast
    from assms(2) that row show ?thesis
      unfolding warehouses_fk_def THRESHOLD_def by fastforce
  qed
  then have "filter (\<lambda>it. it_quantity it < THRESHOLD) (select_join s c) = []"
    by (simp add: filter_empty_conv)
  then show ?thesis
    using assms(1) by (simp add: low_stock_handler_ok empty_alerts_def)
qed

theorem low_stock_empty_witness:
  "sent (low_stock_handler no_faults 7 example_store) = Responded empty_alerts
   \<and> sent (low_stock_handler no_faults 3 example_store) = Responded empty_alerts
   \<and> sent (low_stock_handler no_faults 4 example_store) = Responded empty_alerts
   \<and> warehouses_fk example_store \<and> 7 \<notin> set (map c_id (companies example_store))
   \<and> 3 \<in> set (map c_id (companies example_store))
   \<and> select_join example_store 3 = []
   \<and> map it_quantity (select_join example_store 4) = [20]"
proof -
  have h: "no_faults OpQuery = None"
    by (simp add: no_faults_def)
  have a: "warehouses_fk example_store \<and> 7 \<notin> set (map c_id (companies example_store))"
    by (simp add: warehouses_fk_def example_store_def)
  have b: "\<forall>i \<in> set (inventory example_store). \<forall>w \<in> set (warehouses example_store).
             i_warehouse_id i = w_id w \<longrightarrow> w_company_id w \<noteq> 3"
    by (simp add: example_store_def)
  have c: "map it_quantity (select_join example_store 4) = [20]"
    by (simp add: select_join_def select_list_def example_store_def)
  then have c': "\<forall>it \<in> set (select_join example_store 4). 20 \<le> it_quantity it"
    by (cases "select_join example_store 4") auto
  have d: "select_join example_store 3 = []"
    by (simp add: select_join_def select_list_def example_store_def)
  have e: "3 \<in> set (map c_id (companies example_store))"
    by (simp add: example_store_def)
  show ?thesis
    using low_stock_empty [of no_faults example_store 7] low_stock_empty [of no_faults example_store 3]
      low_stock_empty [of no_faults example_store 4] h a b c c' d e
    by simp
qed

text \<open>
  C8.  When the read succeeds, every alert of the response has exactly the properties
  product_id, product_name, sku, warehouse_name, current_stock and supplier, the supplier
  exactly name and contact_email, and total_alerts is the length of the alerts array.
\<close>

theorem alert_shape:
  assumes "f OpQuery = None"
  shows "\<exists>alerts.
           sent (low_stock_handler f c s) =
             Responded \<lparr>status = 200,
                        body = JObj [(''alerts'', JArr alerts),
                                     (''total_alerts'', JNum (of_nat (length alerts)))]\<rparr>
         \<and> (\<forall>a \<in> set alerts.
                keys a = [''product_id'', ''product_name'', ''sku'', ''warehouse_name'',
                          ''current_stock'', ''supplier'']
              \<and> keys (get_prop a ''supplier'') = [''name'', ''contact_email''])"
proof -
  let ?alerts = "map alert_of (filter (\<lambda>it. it_quantity it < THRESHOLD) (select_join s c))"
  have "sent (low_stock_handler f c s) =
          Responded \<lparr>status = 200,
                     body = JObj [(''alerts'', JArr ?alerts),
                                  (''total_alerts'', JNum (of_nat (length ?alerts)))]\<rparr>"
    using assms by (simp add: low_stock_handler_ok)
  moreover have "keys a = [''product_id'', ''product_name'', ''sku'', ''warehouse_name'',
                          ''current_stock'', ''supplier'']
              \<and> keys (get_prop a ''supplier'') = [''name'', ''contact_email'']"
    if "a \<in> set ?alerts" for a
    using that by (auto simp: alert_of_def)
  ultimately show ?thesis
    by blast
qed

theorem alert_shape_witness:
  "\<exists>alerts.
      sent (low_stock_handler no_faults 1 example_store) =
        Responded \<lparr>status = 200,
                   body = JObj [(''alerts'', JArr alerts),
                                (''total_alerts'', JNum (of_nat (length alerts)))]\<rparr>
    \<and> alerts \<noteq> []
    \<and> (\<forall>a \<in> set alerts.
           keys a = [''product_id'', ''product_name'', ''sku'', ''warehouse_name'',
                     ''current_stock'', ''supplier'']
         \<and> keys (get_prop a ''supplier'') = [''name'', ''contact_email''])"
proof -
  have h: "no_faults OpQuery = None"
    by (simp add: no_faults_def)
  have r: "sent (low_stock_handler no_faults 1 example_store) =
       Responded \<lparr>status = 200,
                  body = JObj [(''alerts'', JArr [widget_alert]), (''total_alerts'', JNum 1)]\<rparr>"
    by (rule example_store_alerts)
  from alert_shape [of no_faults 1 example_store] h
  obtain alerts where
    s: "sent (low_stock_handler no_faults 1 example_store) =
       Responded \<lparr>status = 200,
                  body = JObj [(''alerts'', JArr alerts),
                               (''total_alerts'', JNum (of_nat (length alerts)))]\<rparr>"
    and k: "\<forall>a \<in> set alerts.
           keys a = [''product_id'', ''product_name'', ''sku'', ''warehouse_name'',
                     ''current_stock'', ''supplier'']
         \<and> keys (get_prop a ''supplier'') = [''name'', ''contact_email'']"
    by blast
  from r s have "alerts = [widget_alert]"
    by simp
  with s k show ?thesis
    by blast
qed

text \<open>
  C9, as stated, fails.  Two companies with the same answer (no alert at all): with one
  well-stocked product the loop runs once, with three it runs three times.  The work of
  the handler follows the number of stocked products, not the size of the result.
\<close>

theorem low_stock_cost_counterexample:
  "sent (low_stock_handler no_faults 1 (well_stocked [(1, ''A'')])) = Responded empty_alerts
   \<and> iterations (low_stock_handler no_faults 1 (well_stocked [(1, ''A'')])) = 1
   \<and> sent (low_stock_handler no_faults 1 (well_stocked [(1, ''A''), (2, ''B''), (3, ''C'')]))
       = Responded empty_alerts
   \<and> iterations (low_stock_handler no_faults 1 (well_stocked [(1, ''A''), (2, ''B''), (3, ''C'')])) = 3"
  by (simp add: low_stock_handler_def db_query_def no_faults_def select_join_def
                select_list_def well_stocked_def THRESHOLD_def empty_alerts_def)

text \<open>
  C9, amended.  Whatever the store holds, the handler makes exactly one call to the
  store, the join; when it succeeds the loop runs once for every joined row of the
  company, below the threshold or not, and the alerts are the rows it keeps.
\<close>

theorem low_stock_cost:
  "calls (final (low_stock_handler f c s)) = calls s @ [CallQuery c]
   \<and> (f OpQuery = None \<longrightarrow>
        iterations (low_stock_handler f c s) = length (select_join s c)
      \<and> sent (low_stock_handler f c s) =
          Responded \<lparr>status = 200,
             body = JObj [(''alerts'', JArr (map alert_of (filter (\<lambda>it. it_quantity it < 20) (select_join s c)))),
                          (''total_alerts'', JNum (of_nat (length (filter (\<lambda>it. it_quantity it < 20) (select_join s c)))))]\<rparr>)"
proof (cases "f OpQuery")
  case None
  then show ?thesis
    by (simp add: low_stock_handler_ok record_call_def THRESHOLD_def)
next
  case (Some e)
  then show ?thesis
    by (simp add: low_stock_handler_def db_query_def record_call_def)
qed

theorem low_stock_cost_witness:
  "no_faults OpQuery = None
   \<and> calls (final (low_stock_handler no_faults 1 example_store)) = [CallQuery 1]
   \<and> iterations (low_stock_handler no_faults 1 example_store) = 2
   \<and> sent (low_stock_handler no_faults 1 example_store) =
       Responded \<lparr>status = 200,
                  body = JObj [(''alerts'', JArr [widget_alert]), (''total_alerts'', JNum 1)]\<rparr>"
proof -
  have h: "no_faults OpQuery = None"
    by (simp add: no_faults_def)
  have n: "length (select_join example_store 1) = 2"
    by (simp add: select_join_def select_list_def example_store_def)
  have c: "calls example_store = []"
    by (simp add: example_store_def)
  from low_stock_cost [of no_faults 1 example_store] h
  have "calls (final (low_stock_handler no_faults 1 example_store)) = calls example_store @ [CallQuery 1]"
    and "iterations (low_stock_handler no_faults 1 example_store) = length (select_join example_store 1)"
    by blast+
  then show ?thesis
    unfolding n c using h example_store_alerts by simp
qed

section \<open>The provisioning endpoint: properties\<close>

lemma transaction_cases:
  "(\<exists>e. f OpTransaction = Some e \<and> transaction f s = (Inl e, record_call CallTransaction s))
   \<or> (f OpTransaction = None \<and>
       transaction f s =
        (Inr (next_tx_id s),
         (record_call CallTransaction s)
           \<lparr>next_tx_id := Suc (next_tx_id s),
            open_txs := \<lparr>tx_id = next_tx_id s, tx_products = [], tx_inventory = []\<rparr> # open_txs s\<rparr>))"
  by (cases "f OpTransaction") (simp_all add: transaction_def)

lemma Product_create_err:
  assumes "Product_create f t n k p s = (Inl e, s1)"
  shows "s1 = record_call (CallProductCreate t n k p) s"
  using assms unfolding Product_create_def
  by (auto simp: Let_def split: option.splits jsval.splits if_splits)

lemma Product_create_ok:
  assumes "Product_create f t n k p s = (Inr row, s1)"
    and "open_txs s = \<lparr>tx_id = t, tx_products = ps, tx_inventory = ivs\<rparr> # rest"
  shows "\<exists>name sku price.
           n = JStr name \<and> k = JStr sku \<and> p = JNum price
         \<and> row = \<lparr>p_id = next_product_id s, p_name = name, p_sku = sku, p_price = price,
                  p_supplier_id = None\<rparr>
         \<and> sku \<notin> set (map p_sku (products s @ ps))
         \<and> s1 = (record_call (CallProductCreate t n k p) s)
                  \<lparr>next_product_id := Suc (next_product_id s),
                   open_txs := \<lparr>tx_id = t, tx_products = ps @ [row], tx_inventory = ivs\<rparr>
                               # map (add_product t row) rest\<rparr>"
  using assms unfolding Product_create_def find_tx_def
  by (auto simp: Let_def add_product_def split: option.splits jsval.splits if_splits)

lemma Inventory_create_err:
  assumes "Inventory_create f t pid w q s = (Inl e, s1)"
  shows "s1 = record_call (CallInventoryCreate t pid w q) s"
  using assms unfolding Inventory_create_def
  by (auto simp: Let_def split: option.splits jsval.splits if_splits)

lemma Inventory_create_ok:
  assumes "Inventory_create f t pid w q s = (Inr row, s1)"
    and "open_txs s = \<lparr>tx_id = t, tx_products = ps, tx_inventory = ivs\<rparr> # rest"
  shows "\<exists>wn qn.
           w = JNum wn \<and> q = JNum qn \<and> is_integer qn
         \<and> row = \<lparr>i_product_id = pid, i_warehouse_id = nat \<lfloor>wn\<rfloor>, i_quantity = \<lfloor>qn\<rfloor>\<rparr>
         \<and> nat \<lfloor>wn\<rfloor> \<in> set (map w_id (warehouses s))
         \<and> (quantity_check s \<longrightarrow> 0 \<le> qn)
         \<and> s1 = (record_call (CallInventoryCreate t pid w q) s)
                  \<lparr>open_txs := \<lparr>tx_id = t, tx_products = ps, tx_inventory = ivs @ [row]\<rparr>
                               # map (add_inventory t row) rest\<rparr>"
  using assms unfolding Inventory_create_def find_tx_def
  by (auto simp: Let_def add_inventory_def split: option.splits jsval.splits if_splits)

lemma commit_err:
  assumes "commit f t s = (Inl e, s1)"
  shows "s1 = record_call (CallCommit t) s"
  using assms unfolding commit_def
  by (auto simp: Let_def split: option.splits)

lemma commit_ok:
  assumes "commit f t s = (Inr u, s1)"
    and "open_txs s = \<lparr>tx_id = t, tx_products = ps, tx_inventory = ivs\<rparr> # rest"
  shows "s1 = (record_call (CallCommit t) s)
                \<lparr>products := products s @ ps, inventory := inventory s @ ivs,
                 open_txs := filter (\<lambda>v. tx_id v \<noteq> t) rest\<rparr>"
  using assms unfolding commit_def find_tx_def
  by (auto simp: Let_def split: option.splits)

lemma rollback_cases:
  assumes "open_txs s = \<lparr>tx_id = t, tx_products = ps, tx_inventory = ivs\<rparr> # rest"
  shows "(\<exists>e. f OpRollback = Some e \<and> rollback f t s = (Inl e, record_call (CallRollback t) s))
       \<or> (f OpRollback = None \<and>
           rollback f t s =
            (Inr (), (record_call (CallRollback t) s)
                       \<lparr>open_txs := filter (\<lambda>v. tx_id v \<noteq> t) rest\<rparr>))"
  using assms unfolding rollback_def find_tx_def
  by (cases "f OpRollback") (auto simp: Let_def)

lemma add_product_other: "\<forall>u \<in> set rest. tx_id u \<noteq> t \<Longrightarrow> map (add_product t row) rest = rest"
  by (induction rest) (simp_all add: add_product_def)

lemma add_inventory_other: "\<forall>u \<in> set rest. tx_id u \<noteq> t \<Longrightarrow> map (add_inventory t row) rest = rest"
  by (induction rest) (simp_all add: add_inventory_def)


lemma create_product_try_cases:
  assumes head: "open_txs s0 = \<lparr>tx_id = t, tx_products = [], tx_inventory = []\<rparr> # rest"
  obtains
    (rejected)
      "\<not> nullish b"
      "\<not> truthy (get_prop b ''name'') \<or> \<not> truthy (get_prop b ''sku'')
       \<or> \<not> truthy (get_prop b ''price'') \<or> \<not> truthy (get_prop b ''warehouse_id'')"
      "create_product_try f t b s0 = (Inr bad_request, s0)"
  | (thrown) e n ps ivs rest' where
      "nullish b \<or> (truthy (get_prop b ''name'') \<and> truthy (get_prop b ''sku'')
                     \<and> truthy (get_prop b ''price'') \<and> truthy (get_prop b ''warehouse_id''))"
      "create_product_try f t b s0 =
         (Inl e,
          s0\<lparr>calls := calls s0 @ take n
                 [CallProductCreate t (get_prop b ''name'') (get_prop b ''sku'') (get_prop b ''price''),
                  CallInventoryCreate t (next_product_id s0) (get_prop b ''warehouse_id'')
                    (js_or (get_prop b ''initial_quantity'') (JNum 0)),
                  CallCommit t],
             next_product_id := (if n \<le> 1 then next_product_id s0 else Suc (next_product_id s0)),
             open_txs := \<lparr>tx_id = t, tx_products = ps, tx_inventory = ivs\<rparr> # rest'\<rparr>)"
      "(\<forall>u \<in> set rest. tx_id u \<noteq> t) \<longrightarrow> rest' = rest"
  | (committed) name sku price wn qn rest' where
      "truthy (get_prop b ''name'') \<and> truthy (get_prop b ''sku'')
       \<and> truthy (get_prop b ''price'') \<and> truthy (get_prop b ''warehouse_id'')"
      "get_prop b ''name'' = JStr name" "get_prop b ''sku'' = JStr sku"
      "get_prop b ''price'' = JNum price" "get_prop b ''warehouse_id'' = JNum wn"
      "js_or (get_prop b ''initial_quantity'') (JNum 0) = JNum qn"
      "is_integer qn" "quantity_check s0 \<longrightarrow> 0 \<le> qn"
      "nat \<lfloor>wn\<rfloor> \<in> set (map w_id (warehouses s0))"
      "sku \<notin> set (map p_sku (products s0))"
      "create_product_try f t b s0 =
         (Inr (created (next_product_id s0)),
          s0\<lparr>calls := calls s0 @
                 [CallProductCreate t (JStr name) (JStr sku) (JNum price),
                  CallInventoryCreate t (next_product_id s0) (JNum wn) (JNum qn),
                  CallCommit t],
             next_product_id := Suc (next_product_id s0),
             products := products s0 @
                 [\<lparr>p_id = next_product_id s0, p_name = name, p_sku = sku, p_price = price,
                   p_supplier_id = None\<rparr>],
             inventory := inventory s0 @
                 [\<lparr>i_product_id = next_product_id s0, i_warehouse_id = nat \<lfloor>wn\<rfloor>,
                   i_quantity = \<lfloor>qn\<rfloor>\<rparr>],
             open_txs := filter (\<lambda>v. tx_id v \<noteq> t) rest'\<rparr>)"
      "(\<forall>u \<in> set rest. tx_id u \<noteq> t) \<longrightarrow> rest' = rest"
proof (cases "nullish b")
  case True
  have eq: "create_product_try f t b s0 =
         (Inl ''TypeError: Cannot destructure property of req.body'',
          s0\<lparr>calls := calls s0 @ take 0
                 [CallProductCreate t (get_prop b ''name'') (get_prop b ''sku'') (get_prop b ''price''),
                  CallInventoryCreate t (next_product_id s0) (get_prop b ''warehouse_id'')
                    (js_or (get_prop b ''initial_quantity'') (JNum 0)),
                  CallCommit t],
             next_product_id := (if (0::nat) \<le> 1 then next_product_id s0 else Suc (next_product_id s0)),
             open_txs := \<lparr>tx_id = t, tx_products = [], tx_inventory = []\<rparr> # rest\<rparr>)"
    using True head by (simp add: create_product_try_def)
  show ?thesis
    by (rule thrown [OF _ eq]) (use True in simp_all)
next
  case body: False
  let ?name = "get_prop b ''name''" and ?sku = "get_prop b ''sku''"
    and ?price = "get_prop b ''price''" and ?wid = "get_prop b ''warehouse_id''"
    and ?qty = "js_or (get_prop b ''initial_quantity'') (JNum 0)"
  show ?thesis
  proof (cases "truthy ?name \<and> truthy ?sku \<and> truthy ?price \<and> truthy ?wid")
    case False
    with body show ?thesis
      by (intro rejected) (auto simp: create_product_try_def Let_def)
  next
    case valid: True
    obtain r1 s1 where pc: "Product_create f t ?name ?sku ?price s0 = (r1, s1)"
      by (cases "Product_create f t ?name ?sku ?price s0")
    show ?thesis
    proof (cases r1)
      case (Inl e)
      with pc have "s1 = record_call (CallProductCreate t ?name ?sku ?price) s0"
        by (simp add: Product_create_err)
      with pc Inl body valid head
      have eq: "create_product_try f t b s0 =
         (Inl e,
          s0\<lparr>calls := calls s0 @ take 1
                 [CallProductCreate t ?name ?sku ?price,
                  CallInventoryCreate t (next_product_id s0) ?wid ?qty,
                  CallCommit t],
             next_product_id := (if (1::nat) \<le> 1 then next_product_id s0 else Suc (next_product_id s0)),
             open_txs := \<lparr>tx_id = t, tx_products = [], tx_inventory = []\<rparr> # rest\<rparr>)"
        by (simp add: create_product_try_def Let_def record_call_def)
      show ?thesis
        by (rule thrown [OF _ eq]) (use valid in simp_all)
    next
      case (Inr row)
      from Product_create_ok [OF pc [unfolded Inr] head]
      obtain name sku price where
        vals: "?name = JStr name" "?sku = JStr sku" "?price = JNum price"
        and row: "row = \<lparr>p_id = next_product_id s0, p_name = name, p_sku = sku, p_price = price,
                  p_supplier_id = None\<rparr>"
        and fresh_sku: "sku \<notin> set (map p_sku (products s0))"
        and s1: "s1 = (record_call (CallProductCreate t ?name ?sku ?price) s0)
                  \<lparr>next_product_id := Suc (next_product_id s0),
                   open_txs := \<lparr>tx_id = t, tx_products = [] @ [row], tx_inventory = []\<rparr>
                               # map (add_product t row) rest\<rparr>"
        by auto
      have head1: "open_txs s1 = \<lparr>tx_id = t, tx_products = [row], tx_inventory = []\<rparr>
                               # map (add_product t row) rest"
        by (simp add: s1)
      have pid: "p_id row = next_product_id s0"
        by (simp add: row)
      obtain r2 s2 where ic: "Inventory_create f t (next_product_id s0) ?wid ?qty s1 = (r2, s2)"
        by (cases "Inventory_create f t (next_product_id s0) ?wid ?qty s1")
      show ?thesis
      proof (cases r2)
        case (Inl e)
        with ic have "s2 = record_call (CallInventoryCreate t (next_product_id s0) ?wid ?qty) s1"
          by (simp add: Inventory_create_err)
        with pc ic Inl Inr body valid pid
        have eq: "create_product_try f t b s0 =
         (Inl e,
          s0\<lparr>calls := calls s0 @ take 2
                 [CallProductCreate t ?name ?sku ?price,
                  CallInventoryCreate t (next_product_id s0) ?wid ?qty,
                  CallCommit t],
             next_product_id := (if (2::nat) \<le> 1 then next_product_id s0 else Suc (next_product_id s0)),
             open_txs := \<lparr>tx_id = t, tx_products = [row], tx_inventory = []\<rparr>
                         # map (add_product t row) rest\<rparr>)"
          by (simp add: create_product_try_def Let_def record_call_def s1)
        show ?thesis
          by (rule thrown [OF _ eq]) (use valid in \<open>simp_all add: add_product_other\<close>)
      next
        case inv: (Inr newInventory)
        from Inventory_create_ok [OF ic [unfolded inv] head1]
        obtain wn qn where
          nums: "?wid = JNum wn" "?qty = JNum qn" "is_integer qn"
          and newInventory: "newInventory = \<lparr>i_product_id = next_product_id s0, i_warehouse_id = nat \<lfloor>wn\<rfloor>,
                        i_quantity = \<lfloor>qn\<rfloor>\<rparr>"
          and wh: "nat \<lfloor>wn\<rfloor> \<in> set (map w_id (warehouses s1))"
          and chk: "quantity_check s1 \<longrightarrow> 0 \<le> qn"
          and s2: "s2 = (record_call (CallInventoryCreate t (next_product_id s0) ?wid ?qty) s1)
                  \<lparr>open_txs := \<lparr>tx_id = t, tx_products = [row], tx_inventory = [] @ [newInventory]\<rparr>
                               # map (add_inventory t newInventory) (map (add_product t row) rest)\<rparr>"
          by auto
        let ?rest2 = "map (add_inventory t newInventory) (map (add_product t row) rest)"
        have head2: "open_txs s2 = \<lparr>tx_id = t, tx_products = [row], tx_inventory = [newInventory]\<rparr> # ?rest2"
          by (simp add: s2)
        obtain r3 s3 where cm: "commit f t s2 = (r3, s3)"
          by (cases "commit f t s2")
        show ?thesis
        proof (cases r3)
          case (Inl e)
          with cm have "s3 = record_call (CallCommit t) s2"
            by (simp add: commit_err)
          with pc ic cm Inl Inr inv body valid pid
          have eq: "create_product_try f t b s0 =
           (Inl e,
            s0\<lparr>calls := calls s0 @ take 3
                   [CallProductCreate t ?name ?sku ?price,
                    CallInventoryCreate t (next_product_id s0) ?wid ?qty,
                    CallCommit t],
               next_product_id := (if (3::nat) \<le> 1 then next_product_id s0 else Suc (next_product_id s0)),
               open_txs := \<lparr>tx_id = t, tx_products = [row], tx_inventory = [newInventory]\<rparr> # ?rest2\<rparr>)"
            by (simp add: create_product_try_def Let_def record_call_def s1 s2)
          show ?thesis
            by (rule thrown [OF _ eq])
               (use valid in \<open>simp_all add: add_product_other add_inventory_other\<close>)
        next
          case ok: (Inr u)
          from commit_ok [OF cm [unfolded ok] head2]
          have s3: "s3 = (record_call (CallCommit t) s2)
                \<lparr>products := products s2 @ [row], inventory := inventory s2 @ [newInventory],
                 open_txs := filter (\<lambda>v. tx_id v \<noteq> t) ?rest2\<rparr>" .
          from pc ic cm ok Inr inv body valid pid
          have res: "create_product_try f t b s0 = (Inr (created (next_product_id s0)), s3)"
            by (simp add: create_product_try_def Let_def)
          show ?thesis
          proof (rule committed [where rest' = ?rest2])
            show "create_product_try f t b s0 =
               (Inr (created (next_product_id s0)),
                s0\<lparr>calls := calls s0 @
                       [CallProductCreate t (JStr name) (JStr sku) (JNum price),
                        CallInventoryCreate t (next_product_id s0) (JNum wn) (JNum qn),
                        CallCommit t],
                   next_product_id := Suc (next_product_id s0),
                   products := products s0 @
                       [\<lparr>p_id = next_product_id s0, p_name = name, p_sku = sku, p_price = price,
                         p_supplier_id = None\<rparr>],
                   inventory := inventory s0 @
                       [\<lparr>i_product_id = next_product_id s0, i_warehouse_id = nat \<lfloor>wn\<rfloor>,
                         i_quantity = \<lfloor>qn\<rfloor>\<rparr>],
                   open_txs := filter (\<lambda>v. tx_id v \<noteq> t) ?rest2\<rparr>)"
              unfolding res s3 s2 s1 using vals nums row newInventory
              by (simp add: record_call_def)
          qed (use valid vals nums wh chk fresh_sku in \<open>simp_all add: s1 record_call_def add_product_other add_inventory_other\<close>)
        qed
      qed
    qed
  qed
qed

lemma create_product_handler_cases:
  fixes f b s
  defines "t \<equiv> next_tx_id s"
  obtains
    (no_transaction) e where
      "f OpTransaction = Some e"
      "create_product_handler f b s =
         \<lparr>sent = Unhandled e, final = s\<lparr>calls := calls s @ [CallTransaction]\<rparr>,
          console = []\<rparr>"
  | (rejected)
      "f OpTransaction = None" "\<not> nullish b" "\<not> required_present b"
      "create_product_handler f b s =
         \<lparr>sent = Responded bad_request,
          final = s\<lparr>calls := calls s @ [CallTransaction], next_tx_id := Suc t,
                    open_txs := \<lparr>tx_id = t, tx_products = [], tx_inventory = []\<rparr> # open_txs s\<rparr>,
          console = []\<rparr>"
  | (rollback_failed) e' n ps ivs rest' where
      "f OpTransaction = None" "f OpRollback = Some e'" "nullish b \<or> required_present b"
      "create_product_handler f b s =
         \<lparr>sent = Unhandled e',
          final = s\<lparr>calls := calls s @ CallTransaction
                              # take n (try_calls t (next_product_id s) b) @ [CallRollback t],
                    next_tx_id := Suc t,
                    next_product_id := (if n \<le> 1 then next_product_id s else Suc (next_product_id s)),
                    open_txs := \<lparr>tx_id = t, tx_products = ps, tx_inventory = ivs\<rparr> # rest'\<rparr>,
          console = []\<rparr>"
  | (rolled_back) e n rest' where
      "f OpTransaction = None" "f OpRollback = None" "nullish b \<or> required_present b"
      "create_product_handler f b s =
         \<lparr>sent = Responded server_error,
          final = s\<lparr>calls := calls s @ CallTransaction
                              # take n (try_calls t (next_product_id s) b) @ [CallRollback t],
                    next_tx_id := Suc t,
                    next_product_id := (if n \<le> 1 then next_product_id s else Suc (next_product_id s)),
                    open_txs := filter (\<lambda>v. tx_id v \<noteq> t) rest'\<rparr>,
          console = [''Creation failed: '' @ e]\<rparr>"
      "(\<forall>u \<in> set (open_txs s). tx_id u \<noteq> t) \<longrightarrow> rest' = open_txs s"
  | (committed) name sku price wn qn rest' where
      "f OpTransaction = None" "required_present b"
      "get_prop b ''name'' = JStr name" "get_prop b ''sku'' = JStr sku"
      "get_prop b ''price'' = JNum price" "get_prop b ''warehouse_id'' = JNum wn"
      "js_or (get_prop b ''initial_quantity'') (JNum 0) = JNum qn"
      "is_integer qn" "quantity_check s \<longrightarrow> 0 \<le> qn"
      "nat \<lfloor>wn\<rfloor> \<in> set (map w_id (warehouses s))"
      "sku \<notin> set (map p_sku (products s))"
      "create_product_handler f b s =
         \<lparr>sent = Responded (created (next_product_id s)),
          final = s\<lparr>calls := calls s @ CallTransaction # try_calls t (next_product_id s) b,
                    next_tx_id := Suc t,
                    next_product_id := Suc (next_product_id s),
                    products := products s @
                       [\<lparr>p_id = next_product_id s, p_name = name, p_sku = sku, p_price = price,
                         p_supplier_id = None\<rparr>],
                    inventory := inventory s @
                       [\<lparr>i_product_id = next_product_id s, i_warehouse_id = nat \<lfloor>wn\<rfloor>,
                         i_quantity = \<lfloor>qn\<rfloor>\<rparr>],
                    open_txs := filter (\<lambda>v. tx_id v \<noteq> t) rest'\<rparr>,
          console = []\<rparr>"
      "(\<forall>u \<in> set (open_txs s). tx_id u \<noteq> t) \<longrightarrow> rest' = open_txs s"
proof -
  from transaction_cases [of f s] show ?thesis
  proof (elim disjE exE conjE)
    fix e
    assume "f OpTransaction = Some e" "transaction f s = (Inl e, record_call CallTransaction s)"
    then show ?thesis
      by (intro no_transaction [where e = e]) (simp_all add: create_product_handler_def record_call_def)
  next
    let ?s0 = "(record_call CallTransaction s)
           \<lparr>next_tx_id := Suc (next_tx_id s),
            open_txs := \<lparr>tx_id = next_tx_id s, tx_products = [], tx_inventory = []\<rparr> # open_txs s\<rparr>"
    assume ok: "f OpTransaction = None" and tr: "transaction f s = (Inr (next_tx_id s), ?s0)"
    have head: "open_txs ?s0 = \<lparr>tx_id = t, tx_products = [], tx_inventory = []\<rparr> # open_txs s"
      by (simp add: t_def)
    from head show ?thesis
    proof (cases rule: create_product_try_cases [where f = f and b = b])
      case rejected
      with ok tr show ?thesis
        by (intro that(2))
           (simp_all add: create_product_handler_def record_call_def t_def required_present_def)
    next
      case (thrown e n ps ivs rest')
      let ?s1 = "?s0\<lparr>calls := calls ?s0 @ take n (try_calls t (next_product_id s) b),
             next_product_id := (if n \<le> 1 then next_product_id s else Suc (next_product_id s)),
             open_txs := \<lparr>tx_id = t, tx_products = ps, tx_inventory = ivs\<rparr> # rest'\<rparr>"
      from thrown(2) have tr1: "create_product_try f t b ?s0 = (Inl e, ?s1)"
        by (simp add: try_calls_def record_call_def)
      have head1: "open_txs ?s1 = \<lparr>tx_id = t, tx_products = ps, tx_inventory = ivs\<rparr> # rest'"
        by simp
      from rollback_cases [OF head1, of f] show ?thesis
      proof (elim disjE exE conjE)
        fix e'
        assume "f OpRollback = Some e'" "rollback f t ?s1 = (Inl e', record_call (CallRollback t) ?s1)"
        with ok tr tr1 thrown(1) show ?thesis
          by (intro rollback_failed [where e' = e' and n = n and ps = ps and ivs = ivs and rest' = rest'])
             (simp_all add: create_product_handler_def record_call_def t_def required_present_def)
      next
        assume "f OpRollback = None"
          "rollback f t ?s1 = (Inr (), (record_call (CallRollback t) ?s1)
                       \<lparr>open_txs := filter (\<lambda>v. tx_id v \<noteq> t) rest'\<rparr>)"
        with ok tr tr1 thrown(1,3) show ?thesis
          by (intro rolled_back [where e = e and n = n and rest' = rest'])
             (simp_all add: create_product_handler_def record_call_def t_def required_present_def)
      qed
    next
      case (committed name sku price wn qn rest')
      with ok tr show ?thesis
        by (intro that(5) [where name = name and sku = sku and price = price and wn = wn and qn = qn and rest' = rest'])
           (simp_all add: create_product_handler_def record_call_def t_def try_calls_def
                          required_present_def)
    qed
  qed
qed

lemmas run_defs =
  create_product_handler_def transaction_def create_product_try_def Product_create_def
  Inventory_create_def commit_def rollback_def find_tx_def record_call_def add_product_def
  add_inventory_def js_or_def is_integer_def bad_request_def created_def server_error_def
  no_faults_def connection_refused_def connection_lost_def connection_lost_after_insert_def
  example_store_def
  widget2_request_def sprocket_request_def ghost_warehouse_request_def negative_request_def
  nameless_request_def sprocket_row_def Let_def

lemma run_widget2:
  "create_product_handler no_faults widget2_request example_store =
     \<lparr>sent = Responded server_error,
      final = example_store
        \<lparr>calls := [CallTransaction,
                   CallProductCreate 0 (JStr ''Widget2'') (JStr ''W-1'') (JNum (999 / 100)),
                   CallRollback 0],
         next_tx_id := 1\<rparr>,
      console = [''Creation failed: UniqueConstraintError: products.sku'']\<rparr>"
  by (simp add: run_defs)


lemma run_sprocket:
  "create_product_handler no_faults sprocket_request example_store =
     \<lparr>sent = Responded (created 4),
      final = example_store
        \<lparr>calls := [CallTransaction,
                   CallProductCreate 0 (JStr ''Sprocket'') (JStr ''S-1'') (JNum 3),
                   CallInventoryCreate 0 4 (JNum 1) (JNum 0),
                   CallCommit 0],
         next_tx_id := 1, next_product_id := 5,
         products := products example_store @ [sprocket_row],
         inventory := inventory example_store
                      @ [\<lparr>i_product_id = 4, i_warehouse_id = 1, i_quantity = 0\<rparr>]\<rparr>,
      console = []\<rparr>"
  by (simp add: run_defs)



lemma run_nameless:
  "create_product_handler no_faults nameless_request example_store =
     \<lparr>sent = Responded bad_request,
      final = example_store
        \<lparr>calls := [CallTransaction], next_tx_id := 1,
         open_txs := [\<lparr>tx_id = 0, tx_products = [], tx_inventory = []\<rparr>]\<rparr>,
      console = []\<rparr>"
  by (simp add: run_defs)

lemma run_refused:
  "create_product_handler connection_refused sprocket_request example_store =
     \<lparr>sent = Unhandled ''ECONNREFUSED'',
      final = example_store\<lparr>calls := [CallTransaction]\<rparr>,
      console = []\<rparr>"
  by (simp add: run_defs)

lemma run_lost:
  "create_product_handler connection_lost sprocket_request example_store =
     \<lparr>sent = Unhandled ''ECONNRESET'',
      final = example_store
        \<lparr>calls := [CallTransaction,
                   CallProductCreate 0 (JStr ''Sprocket'') (JStr ''S-1'') (JNum 3),
                   CallRollback 0],
         next_tx_id := 1,
         open_txs := [\<lparr>tx_id = 0, tx_products = [], tx_inventory = []\<rparr>]\<rparr>,
      console = []\<rparr>"
  by (simp add: run_defs)



lemma nullish_get_prop: "nullish b \<Longrightarrow> get_prop b k = JUndefined"
  by (cases b) simp_all

lemma required_present_body: "required_present b \<Longrightarrow> \<not> nullish b"
  by (auto simp: required_present_def nullish_get_prop)










text \<open>
  C2, as stated, fails.  For a body without a name the handler answers 400, but it has
  called the store before: the transaction is opened first.  And when the store cannot
  open it, the same request gets no 400 at all.
\<close>

theorem validation_store_access_counterexample:
  "\<not> truthy (get_prop nameless_request ''name'')
   \<and> sent (create_product_handler no_faults nameless_request example_store) = Responded bad_request
   \<and> calls example_store = []
   \<and> calls (final (create_product_handler no_faults nameless_request example_store)) = [CallTransaction]
   \<and> sent (create_product_handler connection_refused nameless_request example_store)
       = Unhandled ''ECONNREFUSED''"
  by (simp add: run_defs)

text \<open>
  C2, amended.  Once the transaction is open, a body (an object) with a falsy name, sku,
  price or warehouse_id is answered 400 "Missing required fields" with no insert and no
  commit attempted, and the committed tables are unchanged.
\<close>

theorem validation_rejects_before_writes:
  assumes "f OpTransaction = None" and "\<not> nullish b" and "\<not> required_present b"
  shows "sent (create_product_handler f b s) = Responded bad_request
       \<and> status bad_request = 400
       \<and> body bad_request = JObj [(''error'', JStr ''Missing required fields'')]
       \<and> same_tables s (final (create_product_handler f b s))
       \<and> (\<forall>c \<in> set (new_calls s (final (create_product_handler f b s))). \<not> is_write c)"
proof (cases f b s rule: create_product_handler_cases)
  case rejected
  then show ?thesis
    by (simp add: same_tables_def bad_request_def new_calls_def)
qed (use assms in simp_all)

theorem validation_rejects_before_writes_witness:
  "no_faults OpTransaction = None \<and> \<not> nullish nameless_request
   \<and> \<not> required_present nameless_request
   \<and> sent (create_product_handler no_faults nameless_request example_store) = Responded bad_request
   \<and> same_tables example_store (final (create_product_handler no_faults nameless_request example_store))
   \<and> filter is_write (new_calls example_store
                         (final (create_product_handler no_faults nameless_request example_store)))
       = []"
proof -
  have h: "no_faults OpTransaction = None" "\<not> nullish nameless_request"
    "\<not> required_present nameless_request"
    by (simp_all add: no_faults_def nameless_request_def required_present_def)
  from validation_rejects_before_writes [of no_faults nameless_request example_store] h
  show ?thesis
    by (simp add: filter_empty_conv)
qed

text \<open>
  C10.  When validation fails, the transaction opened by the call is still open in the
  final store, with nothing written through it: the handler has answered 400 without a
  commit and without a rollback.
\<close>

theorem validation_leaves_transaction_open:
  assumes "f OpTransaction = None" and "\<not> nullish b" and "\<not> required_present b"
  shows "sent (create_product_handler f b s) = Responded bad_request
       \<and> status bad_request = 400
       \<and> final (create_product_handler f b s) =
           s\<lparr>calls := calls s @ [CallTransaction], next_tx_id := Suc (next_tx_id s),
             open_txs := \<lparr>tx_id = next_tx_id s, tx_products = [], tx_inventory = []\<rparr> # open_txs s\<rparr>
       \<and> find_tx (next_tx_id s) (final (create_product_handler f b s))
           = Some \<lparr>tx_id = next_tx_id s, tx_products = [], tx_inventory = []\<rparr>
       \<and> CallCommit (next_tx_id s) \<notin> set (new_calls s (final (create_product_handler f b s)))
       \<and> CallRollback (next_tx_id s) \<notin> set (new_calls s (final (create_product_handler f b s)))"
proof (cases f b s rule: create_product_handler_cases)
  case rejected
  then show ?thesis
    by (simp add: bad_request_def new_calls_def find_tx_def)
qed (use assms in simp_all)

theorem validation_leaves_transaction_open_witness:
  "no_faults OpTransaction = None \<and> \<not> nullish nameless_request
   \<and> \<not> required_present nameless_request
   \<and> open_txs example_store = []
   \<and> sent (create_product_handler no_faults nameless_request example_store) = Responded bad_request
   \<and> open_txs (final (create_product_handler no_faults nameless_request example_store))
       = [\<lparr>tx_id = 0, tx_products = [], tx_inventory = []\<rparr>]"
proof -
  have h: "no_faults OpTransaction = None" "\<not> nullish nameless_request"
    "\<not> required_present nameless_request"
    by (simp_all add: no_faults_def nameless_request_def required_present_def)
  have e: "open_txs example_store = []" "next_tx_id example_store = 0"
    by (simp_all add: example_store_def)
  from validation_leaves_transaction_open [of no_faults nameless_request example_store] h
  have "sent (create_product_handler no_faults nameless_request example_store) = Responded bad_request"
    and "final (create_product_handler no_faults nameless_request example_store) =
           example_store\<lparr>calls := calls example_store @ [CallTransaction],
             next_tx_id := Suc (next_tx_id example_store),
             open_txs := \<lparr>tx_id = next_tx_id example_store, tx_products = [], tx_inventory = []\<rparr>
                         # open_txs example_store\<rparr>"
    by blast+
  with h e show ?thesis
    by simp
qed

lemma take_try_calls_inventory:
  assumes "CallInventoryCreate t' pid w q \<in> set (take n (try_calls t p b))"
  shows "q = js_or (get_prop b ''initial_quantity'') (JNum 0)"
  using in_set_takeD [OF assms] by (auto simp: try_calls_def)

lemma new_calls_handler_inventory:
  assumes "CallInventoryCreate t' pid w q
             \<in> set (new_calls s (final (create_product_handler f b s)))"
  shows "q = js_or (get_prop b ''initial_quantity'') (JNum 0)"
proof (cases f b s rule: create_product_handler_cases)
  case (no_transaction e)
  with assms show ?thesis
    by (simp add: new_calls_def)
next
  case rejected
  with assms show ?thesis
    by (simp add: new_calls_def)
next
  case (rollback_failed e' n ps ivs rest')
  with assms show ?thesis
    by (auto simp: new_calls_def dest: take_try_calls_inventory)
next
  case (rolled_back e n rest')
  with assms show ?thesis
    by (auto simp: new_calls_def dest: take_try_calls_inventory)
next
  case (committed name sku price wn qn rest')
  with assms show ?thesis
    by (auto simp: new_calls_def try_calls_def)
qed

lemma committed_inventory:
  assumes "http_status (sent (create_product_handler f b s)) = Some 201"
  shows "\<exists>w qn. js_or (get_prop b ''initial_quantity'') (JNum 0) = JNum qn
           \<and> is_integer qn
           \<and> sent (create_product_handler f b s) = Responded (created (next_product_id s))
           \<and> inventory (final (create_product_handler f b s)) =
               inventory s @ [\<lparr>i_product_id = next_product_id s, i_warehouse_id = w,
                                i_quantity = \<lfloor>qn\<rfloor>\<rparr>]"
proof (cases f b s rule: create_product_handler_cases)
  case (committed name sku price wn qn rest')
  then show ?thesis
    by simp
qed (use assms in \<open>simp_all add: bad_request_def server_error_def\<close>)

lemma create_product_success:
  assumes faults: "f OpTransaction = None" "f OpProductCreate = None"
      "f OpInventoryCreate = None" "f OpCommit = None"
    and name: "get_prop b ''name'' = JStr name" "name \<noteq> []"
    and sku: "get_prop b ''sku'' = JStr sku" "sku \<noteq> []" "sku \<notin> set (map p_sku (products s))"
    and price: "get_prop b ''price'' = JNum price" "price \<noteq> 0"
    and wh: "get_prop b ''warehouse_id'' = JNum wn" "is_integer wn" "0 < wn"
      "nat \<lfloor>wn\<rfloor> \<in> set (map w_id (warehouses s))"
    and qty: "js_or (get_prop b ''initial_quantity'') (JNum 0) = JNum qn" "is_integer qn"
      "quantity_check s \<longrightarrow> 0 \<le> qn"
    and fresh: "product_ids_fresh s"
  shows "sent (create_product_handler f b s) = Responded (created (next_product_id s))
       \<and> products (final (create_product_handler f b s)) =
           products s @ [\<lparr>p_id = next_product_id s, p_name = name, p_sku = sku,
                           p_price = price, p_supplier_id = None\<rparr>]
       \<and> inventory (final (create_product_handler f b s)) =
           inventory s @ [\<lparr>i_product_id = next_product_id s, i_warehouse_id = nat \<lfloor>wn\<rfloor>,
                            i_quantity = \<lfloor>qn\<rfloor>\<rparr>]"
proof -
  let ?t = "next_tx_id s" and ?pid = "next_product_id s"
  let ?row = "\<lparr>p_id = ?pid, p_name = name, p_sku = sku, p_price = price, p_supplier_id = None\<rparr>"
  let ?inv = "\<lparr>i_product_id = ?pid, i_warehouse_id = nat \<lfloor>wn\<rfloor>, i_quantity = \<lfloor>qn\<rfloor>\<rparr>"
  let ?s0 = "s\<lparr>calls := calls s @ [CallTransaction], next_tx_id := Suc ?t,
               open_txs := \<lparr>tx_id = ?t, tx_products = [], tx_inventory = []\<rparr> # open_txs s\<rparr>"
  let ?s1 = "?s0\<lparr>calls := calls ?s0 @ [CallProductCreate ?t (JStr name) (JStr sku) (JNum price)],
                 next_product_id := Suc ?pid,
                 open_txs := map (add_product ?t ?row) (open_txs ?s0)\<rparr>"
  let ?s2 = "?s1\<lparr>calls := calls ?s1 @ [CallInventoryCreate ?t ?pid (JNum wn) (JNum qn)],
                 open_txs := map (add_inventory ?t ?inv) (open_txs ?s1)\<rparr>"
  have body: "\<not> nullish b"
    using name(1) by (cases b) simp_all
  have pair: "(?pid, nat \<lfloor>wn\<rfloor>)
                \<notin> set (map (\<lambda>i. (i_product_id i, i_warehouse_id i)) (inventory s))"
    using fresh by (auto simp: product_ids_fresh_def)
  have chk: "\<not> (quantity_check s \<and> qn < 0)"
    using qty(3) by auto
  have nonneg: "\<not> wn < 0" and nonzero: "wn \<noteq> 0"
    using wh(3) by simp_all
  have tr: "transaction f s = (Inr ?t, ?s0)"
    using faults(1) by (simp add: transaction_def record_call_def)
  have pc: "Product_create f ?t (JStr name) (JStr sku) (JNum price) ?s0 = (Inr ?row, ?s1)"
    using faults(2) sku(3)
    by (simp add: Product_create_def find_tx_def record_call_def Let_def)
  have ic: "Inventory_create f ?t ?pid (JNum wn) (JNum qn) ?s1 = (Inr ?inv, ?s2)"
    unfolding Inventory_create_def
    using faults(3) wh(2,4) qty(2) pair chk nonneg
    by (simp add: find_tx_def record_call_def Let_def add_product_def)
  have cm: "\<exists>s3. commit f ?t ?s2 = (Inr (), s3)
              \<and> products s3 = products s @ [?row] \<and> inventory s3 = inventory s @ [?inv]"
    using faults(4)
    by (simp add: commit_def find_tx_def record_call_def Let_def add_product_def add_inventory_def)
  then obtain s3 where cm3: "commit f ?t ?s2 = (Inr (), s3)"
    and tabs: "products s3 = products s @ [?row]" "inventory s3 = inventory s @ [?inv]"
    by blast
  have "create_product_try f ?t b ?s0 = (Inr (created ?pid), s3)"
    using body name sku(1,2) price wh(1) nonzero qty(1) pc ic cm3
    by (simp add: create_product_try_def Let_def)
  with tr tabs show ?thesis
    by (simp add: create_product_handler_def)
qed

text \<open>
  C4.  For a request without initial_quantity, every call of Inventory.create made by
  the handler passes the quantity 0, and a 201 means the committed Inventory row has
  quantity 0.  The row is indeed created: when the request is otherwise valid (name and
  sku non-empty strings, the sku unused, a non-zero price, an existing warehouse) and
  the store does not fail, the answer is 201 and the row has quantity 0.
\<close>

theorem initial_quantity_defaults_to_zero:
  assumes absent: "get_prop b ''initial_quantity'' = JUndefined"
  shows "(\<forall>t pid w q. CallInventoryCreate t pid w q
               \<in> set (new_calls s (final (create_product_handler f b s))) \<longrightarrow> q = JNum 0)
       \<and> (http_status (sent (create_product_handler f b s)) = Some 201 \<longrightarrow>
            (\<exists>i. inventory (final (create_product_handler f b s)) = inventory s @ [i]
                \<and> i_quantity i = 0))
       \<and> (f OpTransaction = None \<and> f OpProductCreate = None
            \<and> f OpInventoryCreate = None \<and> f OpCommit = None
            \<and> get_prop b ''name'' = JStr name \<and> name \<noteq> []
            \<and> get_prop b ''sku'' = JStr sku \<and> sku \<noteq> [] \<and> sku \<notin> set (map p_sku (products s))
            \<and> get_prop b ''price'' = JNum price \<and> price \<noteq> 0
            \<and> get_prop b ''warehouse_id'' = JNum wn \<and> is_integer wn \<and> 0 < wn
            \<and> nat \<lfloor>wn\<rfloor> \<in> set (map w_id (warehouses s))
            \<and> product_ids_fresh s
          \<longrightarrow> sent (create_product_handler f b s) = Responded (created (next_product_id s))
            \<and> inventory (final (create_product_handler f b s)) =
                 inventory s @ [\<lparr>i_product_id = next_product_id s, i_warehouse_id = nat \<lfloor>wn\<rfloor>,
                                  i_quantity = 0\<rparr>])"
proof -
  have dflt: "js_or (get_prop b ''initial_quantity'') (JNum 0) = JNum 0"
    by (simp add: absent js_or_def)
  have calls_zero: "q = JNum 0"
    if "CallInventoryCreate t pid w q \<in> set (new_calls s (final (create_product_handler f b s)))"
    for t pid w q
    using new_calls_handler_inventory [OF that] dflt by simp
  have row_zero: "\<exists>i. inventory (final (create_product_handler f b s)) = inventory s @ [i]
                \<and> i_quantity i = 0"
    if "http_status (sent (create_product_handler f b s)) = Some 201"
    using committed_inventory [OF that] dflt by auto
  have int0: "is_integer 0"
    by (simp add: is_integer_def)
  have progress: "sent (create_product_handler f b s) = Responded (created (next_product_id s))
            \<and> inventory (final (create_product_handler f b s)) =
                 inventory s @ [\<lparr>i_product_id = next_product_id s, i_warehouse_id = nat \<lfloor>wn\<rfloor>,
                                  i_quantity = 0\<rparr>]"
    if "f OpTransaction = None" "f OpProductCreate = None"
       "f OpInventoryCreate = None" "f OpCommit = None"
       "get_prop b ''name'' = JStr name" "name \<noteq> []"
       "get_prop b ''sku'' = JStr sku" "sku \<noteq> []" "sku \<notin> set (map p_sku (products s))"
       "get_prop b ''price'' = JNum price" "price \<noteq> 0"
       "get_prop b ''warehouse_id'' = JNum wn" "is_integer wn" "0 < wn"
       "nat \<lfloor>wn\<rfloor> \<in> set (map w_id (warehouses s))"
       "product_ids_fresh s"
    using create_product_success [where f = f and b = b and s = s and qn = 0, OF that(1-15) dflt int0 _ that(16)]
    by simp
  show ?thesis
    using calls_zero row_zero progress by blast
qed

theorem initial_quantity_defaults_to_zero_witness:
  "get_prop sprocket_request ''initial_quantity'' = JUndefined
   \<and> sent (create_product_handler no_faults sprocket_request example_store) = Responded (created 4)
   \<and> http_status (sent (create_product_handler no_faults sprocket_request example_store)) = Some 201
   \<and> inventory (final (create_product_handler no_faults sprocket_request example_store)) =
        inventory example_store @ [\<lparr>i_product_id = 4, i_warehouse_id = 1, i_quantity = 0\<rparr>]
   \<and> CallInventoryCreate 0 4 (JNum 1) (JNum 0)
        \<in> set (new_calls example_store
                 (final (create_product_handler no_faults sprocket_request example_store)))"
proof -
  have absent: "get_prop sprocket_request ''initial_quantity'' = JUndefined"
    by (simp add: sprocket_request_def)
  have pre: "no_faults OpTransaction = None \<and> no_faults OpProductCreate = None
            \<and> no_faults OpInventoryCreate = None \<and> no_faults OpCommit = None
            \<and> get_prop sprocket_request ''name'' = JStr ''Sprocket'' \<and> ''Sprocket'' \<noteq> []
            \<and> get_prop sprocket_request ''sku'' = JStr ''S-1'' \<and> ''S-1'' \<noteq> []
            \<and> ''S-1'' \<notin> set (map p_sku (products example_store))
            \<and> get_prop sprocket_request ''price'' = JNum 3 \<and> (3::rat) \<noteq> 0
            \<and> get_prop sprocket_request ''warehouse_id'' = JNum 1 \<and> is_integer 1 \<and> (0::rat) < 1
            \<and> nat \<lfloor>1::rat\<rfloor> \<in> set (map w_id (warehouses example_store))
            \<and> product_ids_fresh example_store"
    by (simp add: no_faults_def sprocket_request_def example_store_def is_integer_def
                  product_ids_fresh_def)
  have nxt: "next_product_id example_store = 4" "nat \<lfloor>1::rat\<rfloor> = 1"
    by (simp_all add: example_store_def)
  have st: "http_status (Responded (created 4)) = Some 201"
    by (simp add: created_def)
  have cl: "CallInventoryCreate 0 4 (JNum 1) (JNum 0)
        \<in> set (new_calls example_store
                 (final (create_product_handler no_faults sprocket_request example_store)))"
    by (simp add: run_sprocket new_calls_def) (simp add: example_store_def)
  from initial_quantity_defaults_to_zero
         [of sprocket_request example_store no_faults "''Sprocket''" "''S-1''" 3 1, OF absent] pre
  have "sent (create_product_handler no_faults sprocket_request example_store)
          = Responded (created (next_product_id example_store))
      \<and> inventory (final (create_product_handler no_faults sprocket_request example_store)) =
          inventory example_store
          @ [\<lparr>i_product_id = next_product_id example_store, i_warehouse_id = nat \<lfloor>1::rat\<rfloor>,
               i_quantity = 0\<rparr>]"
    by blast
  with absent st cl show ?thesis
    unfolding nxt by simp
qed




text \<open>
  C7.  The code breaks the claim on two paths.  A failure inside the try block is
  answered as the claim says: a sku that is taken gives 500 with the fixed text
  "Failed to create product", the error text going to the console only.  But a store
  that cannot open the transaction, and a store on which the rollback in the catch block
  fails, make the error escape the handler: no response is sent, neither the 500 nor
  the generic message.
\<close>

theorem provisioning_failure_escapes:
  "sent (create_product_handler no_faults widget2_request example_store) = Responded server_error
   \<and> status server_error = 500
   \<and> body server_error = JObj [(''error'', JStr ''Failed to create product'')]
   \<and> console (create_product_handler no_faults widget2_request example_store)
       = [''Creation failed: UniqueConstraintError: products.sku'']
   \<and> sent (create_product_handler connection_refused sprocket_request example_store)
       = Unhandled ''ECONNREFUSED''
   \<and> http_status (sent (create_product_handler connection_refused sprocket_request example_store))
       = None
   \<and> sent (create_product_handler connection_lost sprocket_request example_store)
       = Unhandled ''ECONNRESET''
   \<and> http_status (sent (create_product_handler connection_lost sprocket_request example_store))
       = None"
  by (simp add: run_widget2 run_refused run_lost) (simp add: server_error_def)

end
